theory Spec2Isabelle
  imports Complex_Main
begin

section \<open>Python values\<close>

text \<open>
  A Python \<open>str\<close> is a sequence of Unicode code points; \<open>len\<close>, slicing,
  \<open>strip\<close> and \<open>re.sub\<close> all count code points. A string is therefore a list of
  code points, and \<open>ascii\<close> turns an ASCII literal into one.
\<close>

type_synonym pystr = "nat list"

definition ascii :: "string \<Rightarrow> pystr" where
  "ascii s = map of_char s"

text \<open>
  The values that reach the audit log are dynamically typed: \<open>None\<close>, a \<open>str\<close>, an
  \<open>int\<close> or a \<open>float\<close>. Floats are idealised as real numbers.
\<close>

datatype pyval = PNone | PStr pystr | PInt int | PFloat real

datatype exc_kind =
  ValueError | FileNotFoundError | KeyError | TypeError | AttributeError
  | CalledProcessError | CollaboratorError

text \<open>An exception: its class and \<open>str(e)\<close>. Every class here derives from \<open>Exception\<close>.\<close>

datatype exn = Exc exc_kind pystr

fun message :: "exn \<Rightarrow> pystr" where
  "message (Exc k m) = m"

subsection \<open>Decimal formatting\<close>

definition digit_char :: "nat \<Rightarrow> nat" where
  "digit_char d = 48 + d"

fun str_nat :: "nat \<Rightarrow> pystr" where
  "str_nat n = (if n < 10 then [digit_char n] else str_nat (n div 10) @ [digit_char (n mod 10)])"

declare str_nat.simps [simp del]

text \<open>
  \<open>f"{n:02d}"\<close>: the decimal digits, padded with zeros on the left to a width of two;
  the sign of a negative number counts towards the width.
\<close>

definition zfill :: "nat \<Rightarrow> pystr \<Rightarrow> pystr" where
  "zfill w ds = replicate (w - length ds) 48 @ ds"

definition fmt_02d :: "int \<Rightarrow> pystr" where
  "fmt_02d n = (if n < 0 then 45 # zfill 1 (str_nat (nat (- n))) else zfill 2 (str_nat (nat n)))"

subsection \<open>Arithmetic on numbers\<close>

text \<open>
  \<open>x // y\<close> and \<open>x % y\<close> on floats (floored division and its remainder), and
  \<open>int(x)\<close>, which truncates towards zero.
\<close>

definition floordiv :: "real \<Rightarrow> real \<Rightarrow> real" where
  "floordiv x y = of_int \<lfloor>x / y\<rfloor>"

definition pymod :: "real \<Rightarrow> real \<Rightarrow> real" where
  "pymod x y = x - y * of_int \<lfloor>x / y\<rfloor>"

definition py_int :: "real \<Rightarrow> int" where
  "py_int x = (if 0 \<le> x then \<lfloor>x\<rfloor> else \<lceil>x\<rceil>)"

section \<open>Timestamp formatting\<close>

definition format_timestamp :: "real \<Rightarrow> pystr" where
  "format_timestamp seconds =
     (let hours = py_int (floordiv seconds 3600);
          minutes = py_int (floordiv (pymod seconds 3600) 60);
          secs = py_int (pymod seconds 60)
      in if hours > 0
         then fmt_02d hours @ ascii '':'' @ fmt_02d minutes @ ascii '':'' @ fmt_02d secs
         else fmt_02d minutes @ ascii '':'' @ fmt_02d secs)"


section \<open>Title sanitising\<close>

text \<open>
  \<open>re.sub(r'[<>:"/\\|?*]', '_', title)\<close>, written out at both places that need a file
  name. The character class holds \<open>< > : " / \ | ? *\<close> (34 is the double quote, 92 the
  backslash); the replacement is \<open>_\<close>.
\<close>

definition reserved :: "nat list" where
  "reserved = ascii ''<>:'' @ [34] @ ascii ''/'' @ [92] @ ascii ''|?*''"

definition safe_title :: "pystr \<Rightarrow> pystr" where
  "safe_title title = map (\<lambda>c. if c \<in> set reserved then of_char (CHR ''_'') else c) title"

section \<open>Whitespace\<close>

text \<open>The code points for which \<open>str.isspace\<close> holds, and \<open>str.strip()\<close>.\<close>

definition isspace :: "nat \<Rightarrow> bool" where
  "isspace c \<longleftrightarrow>
     (9 \<le> c \<and> c \<le> 13) \<or> (28 \<le> c \<and> c \<le> 32) \<or> c = 133 \<or> c = 160 \<or> c = 5760
     \<or> (8192 \<le> c \<and> c \<le> 8202) \<or> c = 8232 \<or> c = 8233 \<or> c = 8239 \<or> c = 8287
     \<or> c = 12288"

definition strip :: "pystr \<Rightarrow> pystr" where
  "strip s = rev (dropWhile isspace (rev (dropWhile isspace s)))"

definition endswith :: "pystr \<Rightarrow> pystr \<Rightarrow> bool" where
  "endswith s suffix \<longleftrightarrow>
     length suffix \<le> length s \<and> drop (length s - length suffix) s = suffix"

section \<open>Resolving the input\<close>

text \<open>
  A cell of the table that \<open>pandas.read_csv\<close> returns: a missing value, a string, or a
  scalar that is not a string (a number or a boolean, when the whole column parses as
  one). The table maps a column name to its cells in row order.
\<close>

datatype cell = NaN | Text pystr | NonText

type_synonym dataframe = "pystr \<rightharpoonup> cell list"

text \<open>What the operating system and pandas answer: \<open>os.path.exists\<close> and \<open>pd.read_csv\<close>.\<close>

record os_env =
  path_exists :: "pystr \<Rightarrow> bool"
  read_csv :: "pystr \<Rightarrow> exn + dataframe"

text \<open>
  The loop over \<open>df['url'].tolist()\<close>. A missing cell is skipped by \<open>pd.notna\<close>, a
  blank string by \<open>str(link).strip()\<close>; \<open>link.strip()\<close> raises on a cell that is
  not a string.
\<close>

fun collect_urls :: "cell list \<Rightarrow> pystr list \<Rightarrow> exn + pystr list" where
  "collect_urls [] urls = Inr urls"
| "collect_urls (NaN # links) urls = collect_urls links urls"
| "collect_urls (Text link # links) urls =
     (if strip link \<noteq> [] then collect_urls links (urls @ [strip link])
      else collect_urls links urls)"
| "collect_urls (NonText # links) urls =
     Inl (Exc AttributeError (ascii ''object has no attribute strip''))"

definition extract_url :: "os_env \<Rightarrow> pystr \<Rightarrow> exn + pystr list" where
  "extract_url os csv =
     (if \<not> endswith csv (ascii ''.csv'')
      then Inl (Exc ValueError
             (ascii ''El archivo proporcionado no es un archivo CSV v'' @ [225] @ ascii ''lido.''))
      else if \<not> path_exists os csv
      then Inl (Exc FileNotFoundError
             (ascii ''No se encontr'' @ [243] @ ascii '' el archivo: '' @ csv))
      else case read_csv os csv of
             Inl e \<Rightarrow> Inl e
           | Inr df \<Rightarrow>
               (case df (ascii ''url'') of
                  None \<Rightarrow> Inl (Exc ValueError
                    (ascii ''El archivo CSV no contiene una columna '' @ [39] @ ascii ''url''
                       @ [39] @ ascii ''.''))
                | Some links \<Rightarrow>
                    (case collect_urls links [] of
                       Inl e \<Rightarrow> Inl e
                     | Inr urls \<Rightarrow>
                         if urls = []
                         then Inl (Exc ValueError
                                (ascii ''No se encontraron URLs v'' @ [225]
                                   @ ascii ''lidas en el CSV.''))
                         else Inr urls)))"

section \<open>Rendering the document\<close>

record segment =
  seg_start :: real
  seg_end :: real
  seg_text :: pystr

text \<open>
  Whisper's result: \<open>result['text']\<close> and, when the key is there, \<open>result['segments']\<close>.
\<close>

record result =
  res_text :: pystr
  res_segments :: "segment list option"

text \<open>A paragraph is its runs, each a text and whether it is bold.\<close>

type_synonym docx_paragraph = "(pystr \<times> bool) list"

record document =
  heading :: pystr
  paragraphs :: "docx_paragraph list"

fun add_segments :: "document \<Rightarrow> segment list \<Rightarrow> document" where
  "add_segments doc [] = doc"
| "add_segments doc (seg # segs) =
     (let start_time = format_timestamp (seg_start seg);
          end_time = format_timestamp (seg_end seg);
          p = [(ascii ''['' @ start_time @ ascii '' '' @ [8594] @ ascii '' '' @ end_time
                  @ ascii ''] '', True),
               (strip (seg_text seg), False)]
      in add_segments (doc\<lparr>paragraphs := paragraphs doc @ [p]\<rparr>) segs)"

text \<open>The document that \<open>word\<close> builds before it saves it.\<close>

definition word_doc :: "result \<Rightarrow> document" where
  "word_doc result =
     (let doc = \<lparr>heading = ascii ''Transcripci'' @ [243] @ ascii ''n de Audio'', paragraphs = []\<rparr>
      in case res_segments result of
           Some segs \<Rightarrow> add_segments doc segs
         | None \<Rightarrow> doc\<lparr>paragraphs := paragraphs doc @ [[(res_text result, False)]]\<rparr>)"

text \<open>
  \<open>word\<close> itself: \<open>saved\<close> is what \<open>doc.save\<close> does (\<open>Some e\<close> when it raises), and the
  saved documents are kept by file name.
\<close>

definition word :: "exn option \<Rightarrow> result \<Rightarrow> pystr \<Rightarrow> (pystr \<rightharpoonup> document)
    \<Rightarrow> exn + (pystr \<rightharpoonup> document)" where
  "word saved result documento docs =
     (let doc = word_doc result
      in case saved of Some e \<Rightarrow> Inl e | None \<Rightarrow> Inr (docs(documento \<mapsto> doc)))"

section \<open>The audit log\<close>

text \<open>
  What \<open>download_video\<close> returns, as far as the program reads it. \<open>None\<close> is a key that
  is not there. \<open>filepath\<close> is \<open>info['requested_downloads'][0]['filepath']\<close>.
\<close>

record info =
  title :: "pystr option"
  filepath :: "pystr option"
  upload_date :: "pyval option"
  duration :: "pyval option"
  view_count :: "pyval option"
  uploader :: "pyval option"

text \<open>
  The log file is a table: \<open>None\<close> while the file does not exist, otherwise its rows,
  each a list of seven cells. The file can always be appended to.
\<close>

type_synonym csv_row = "pyval list"

type_synonym csv_file = "csv_row list option"

definition NA :: pystr where
  "NA = ascii ''N/A''"

text \<open>\<open>info.get(key, 'N/A')\<close>\<close>

definition get_or_NA :: "pyval option \<Rightarrow> pyval" where
  "get_or_NA v = (case v of None \<Rightarrow> PStr NA | Some x \<Rightarrow> x)"

fun type_name :: "pyval \<Rightarrow> pystr" where
  "type_name PNone = ascii ''NoneType''"
| "type_name (PStr s) = ascii ''str''"
| "type_name (PInt n) = ascii ''int''"
| "type_name (PFloat x) = ascii ''float''"

text \<open>
  The date: \<open>if upload_date != 'N/A' and len(upload_date) == 8\<close>, then the three slices
  joined by dashes. \<open>len\<close> raises on a value that is not a string.
\<close>

definition format_upload_date :: "pyval \<Rightarrow> exn + pyval" where
  "format_upload_date date =
     (if date \<noteq> PStr NA
      then (case date of
              PStr s \<Rightarrow>
                if length s = 8
                then Inr (PStr (take 4 s @ ascii ''-'' @ take 2 (drop 4 s) @ ascii ''-''
                                  @ take 2 (drop 6 s)))
                else Inr date
            | _ \<Rightarrow> Inl (Exc TypeError
                      (ascii ''object of type '' @ [39] @ type_name date @ [39]
                         @ ascii '' has no len()'')))
      else Inr date)"

text \<open>The duration: formatted only when it is an \<open>int\<close> or a \<open>float\<close>.\<close>

definition format_duration :: "pyval \<Rightarrow> pyval" where
  "format_duration dur =
     (case dur of
        PInt d \<Rightarrow>
          PStr (fmt_02d (d div 3600) @ ascii '':'' @ fmt_02d (d mod 3600 div 60) @ ascii '':''
                  @ fmt_02d (d mod 60))
      | PFloat d \<Rightarrow>
          PStr (fmt_02d (py_int (floordiv d 3600)) @ ascii '':''
                  @ fmt_02d (py_int (floordiv (pymod d 3600) 60)) @ ascii '':''
                  @ fmt_02d (py_int (pymod d 60)))
      | _ \<Rightarrow> dur)"

definition header_row :: csv_row where
  "header_row = map (\<lambda>c. PStr (ascii c))
     [''title'', ''upload_date'', ''duration'', ''view_count'', ''channel'', ''URL'', ''status'']"

definition error_row :: "exn \<Rightarrow> pystr \<Rightarrow> csv_row" where
  "error_row e url =
     [PStr NA, PStr NA, PStr NA, PStr NA, PStr NA, PStr url,
      PStr (ascii ''Error: '' @ message e)]"

definition success_row :: "info \<Rightarrow> pyval \<Rightarrow> pystr \<Rightarrow> csv_row" where
  "success_row i date url =
     [case title i of None \<Rightarrow> PStr NA | Some t \<Rightarrow> PStr t,
      date,
      format_duration (get_or_NA (duration i)),
      get_or_NA (view_count i),
      get_or_NA (uploader i),
      PStr url,
      PStr (ascii ''Success'')]"

text \<open>
  \<open>df.to_csv(output_csv, mode="a", header=write_header, index=False)\<close> with
  \<open>write_header = not os.path.exists(output_csv)\<close>.
\<close>

definition to_csv :: "csv_row \<Rightarrow> csv_file \<Rightarrow> csv_file" where
  "to_csv row output_csv =
     (let write_header = (output_csv = None);
          old = (case output_csv of None \<Rightarrow> [] | Some rows \<Rightarrow> rows)
      in Some (old @ (if write_header then [header_row] else []) @ [row]))"

text \<open>
  \<open>registro(info, url, output_csv)\<close>; the first argument is an exception (\<open>Inl\<close>) or the
  metadata (\<open>Inr\<close>). The result is the log file afterwards, or the exception raised before
  anything was written.
\<close>

definition registro :: "exn + info \<Rightarrow> pystr \<Rightarrow> csv_file \<Rightarrow> exn + csv_file" where
  "registro info url output_csv =
     (case info of
        Inl e \<Rightarrow> Inr (to_csv (error_row e url) output_csv)
      | Inr i \<Rightarrow>
          (case format_upload_date (get_or_NA (upload_date i)) of
             Inl e \<Rightarrow> Inl e
           | Inr date \<Rightarrow> Inr (to_csv (success_row i date url) output_csv)))"

section \<open>The pipeline\<close>

text \<open>
  What the collaborators do for one item: the download, \<open>ffmpeg\<close> run by
  \<open>subprocess.run(..., check=True)\<close>, \<open>model.transcribe\<close>, \<open>doc.save\<close>, and whether
  \<open>os.remove\<close> raises \<open>OSError\<close> on a path.
\<close>

record collab =
  download :: "exn + info"
  ffmpeg :: "exn option"
  transcribe :: "exn + result"
  save :: "exn option"
  remove_raises :: "pystr \<Rightarrow> bool"

text \<open>
  The disk and the two counters of \<open>main\<close>: the media files that exist, the saved
  documents, the log file.
\<close>

record state =
  files :: "pystr set"
  docs :: "pystr \<rightharpoonup> document"
  log :: csv_file
  exitosos :: nat
  fallidos :: nat

text \<open>A successful download leaves the raw media file on disk.\<close>

definition download_video :: "collab \<Rightarrow> pystr set \<Rightarrow> exn + (info \<times> pystr set)" where
  "download_video c fs =
     (case download c of
        Inl e \<Rightarrow> Inl e
      | Inr i \<Rightarrow> Inr (i, fs \<union> (case filepath i of None \<Rightarrow> {} | Some p \<Rightarrow> {p})))"

definition key_error :: "string \<Rightarrow> exn" where
  "key_error k = Exc KeyError ([39] @ ascii k @ [39])"

text \<open>
  \<open>convert_to_wav\<close> returns both paths only when \<open>ffmpeg\<close> succeeded, and then the WAV
  file exists.
\<close>

definition convert_to_wav :: "collab \<Rightarrow> info \<Rightarrow> pystr set
    \<Rightarrow> exn + ((pystr \<times> pystr) \<times> pystr set)" where
  "convert_to_wav c i fs =
     (case filepath i of
        None \<Rightarrow> Inl (key_error ''requested_downloads'')
      | Some input_file \<Rightarrow>
          (case title i of
             None \<Rightarrow> Inl (key_error ''title'')
           | Some t \<Rightarrow>
               (let output_file = safe_title t @ ascii ''.wav''
                in case ffmpeg c of
                     Some e \<Rightarrow> Inl e
                   | None \<Rightarrow> Inr ((input_file, output_file), fs \<union> {output_file}))))"

text \<open>
  \<open>clean\<close>: a path is removed when it is not \<open>None\<close>, not empty and exists; an
  \<open>OSError\<close> from \<open>os.remove\<close> is reported and the file stays.
\<close>

definition clean_one :: "collab \<Rightarrow> pystr option \<Rightarrow> pystr set \<Rightarrow> pystr set" where
  "clean_one c archivo fs =
     (case archivo of
        None \<Rightarrow> fs
      | Some p \<Rightarrow>
          if p \<noteq> [] \<and> p \<in> fs
          then (if remove_raises c p then fs else fs - {p})
          else fs)"

definition clean :: "collab \<Rightarrow> pystr option \<Rightarrow> pystr option \<Rightarrow> pystr set \<Rightarrow> pystr set" where
  "clean c input_file output_file fs = foldl (\<lambda>fs' archivo. clean_one c archivo fs') fs
     [input_file, output_file]"

text \<open>
  The body of the \<open>try\<close>: the exception it raised if any, the two variables
  \<open>input_file\<close> and \<open>output_file\<close> as they stand when it ends, and the state.
\<close>

definition try_body :: "collab \<Rightarrow> pystr \<Rightarrow> state
    \<Rightarrow> exn option \<times> pystr option \<times> pystr option \<times> state" where
  "try_body c url st =
     (case download_video c (files st) of
        Inl e \<Rightarrow> (Some e, None, None, st)
      | Inr (i, fs1) \<Rightarrow>
          (let st1 = st\<lparr>files := fs1\<rparr>
           in case title i of
                None \<Rightarrow> (Some (key_error ''title''), None, None, st1)
              | Some t \<Rightarrow>
                  (case convert_to_wav c i fs1 of
                     Inl e \<Rightarrow> (Some e, None, None, st1)
                   | Inr ((input_file, output_file), fs2) \<Rightarrow>
                       (let st2 = st1\<lparr>files := fs2\<rparr>
                        in case transcribe c of
                             Inl e \<Rightarrow> (Some e, Some input_file, Some output_file, st2)
                           | Inr result \<Rightarrow>
                               (case word (save c) result (safe_title t @ ascii ''.docx'')
                                       (docs st2) of
                                  Inl e \<Rightarrow> (Some e, Some input_file, Some output_file, st2)
                                | Inr ds \<Rightarrow>
                                    (let st3 = st2\<lparr>docs := ds\<rparr>
                                     in case registro (Inr i) url (log st3) of
                                          Inl e \<Rightarrow>
                                            (Some e, Some input_file, Some output_file, st3)
                                        | Inr lg \<Rightarrow>
                                            (None, Some input_file, Some output_file,
                                             st3\<lparr>log := lg,
                                                  exitosos := exitosos st3 + 1\<rparr>)))))))"

text \<open>
  One turn of the loop: \<open>try\<close>, \<open>except Exception\<close>, \<open>finally\<close>. The first component
  is the exception that leaves the loop body, if the handler itself raised.
\<close>

definition process_item :: "collab \<Rightarrow> pystr \<Rightarrow> state \<Rightarrow> exn option \<times> state" where
  "process_item c url st =
     (case try_body c url st of
        (raised, input_file, output_file, st1) \<Rightarrow>
          (let (escaped, st2) =
                 (case raised of
                    None \<Rightarrow> (None, st1)
                  | Some e \<Rightarrow>
                      (case registro (Inl e) url (log st1) of
                         Inl e' \<Rightarrow> (Some e', st1)
                       | Inr lg \<Rightarrow> (None, st1\<lparr>log := lg, fallidos := fallidos st1 + 1\<rparr>)))
           in (escaped, st2\<lparr>files := clean c input_file output_file (files st2)\<rparr>)))"

text \<open>
  The \<open>for\<close> loop; \<open>w idx url\<close> is what the collaborators do for the item at position
  \<open>idx\<close>. An exception that leaves the body ends the loop.
\<close>

fun run_batch :: "(nat \<Rightarrow> pystr \<Rightarrow> collab) \<Rightarrow> nat \<Rightarrow> pystr list \<Rightarrow> state
    \<Rightarrow> exn option \<times> state" where
  "run_batch w idx [] st = (None, st)"
| "run_batch w idx (url # videos) st =
     (case process_item (w idx url) url st of
        (Some e, st') \<Rightarrow> (Some e, st')
      | (None, st') \<Rightarrow> run_batch w (Suc idx) videos st')"


section \<open>The specification's words\<close>

text \<open>
  The entries the specification expects from a column: its strings, trimmed, without the
  blank ones, in row order.
\<close>

definition spec_urls :: "cell list \<Rightarrow> pystr list" where
  "spec_urls cells =
     filter (\<lambda>u. u \<noteq> [])
       (map strip (concat (map (\<lambda>c. case c of Text link \<Rightarrow> [link] | _ \<Rightarrow> []) cells)))"

text \<open>
  The specification's \<open>ValidationError\<close>: the \<open>ValueError\<close> and \<open>FileNotFoundError\<close>
  that \<open>extract_url\<close> raises itself.
\<close>

fun validation_error :: "exn + 'a \<Rightarrow> bool" where
  "validation_error (Inl (Exc k m)) \<longleftrightarrow> k = ValueError \<or> k = FileNotFoundError"
| "validation_error (Inr x) \<longleftrightarrow> False"


text \<open>The paragraph the specification expects for a segment.\<close>

definition spec_paragraph :: "segment \<Rightarrow> docx_paragraph" where
  "spec_paragraph seg =
     [(ascii ''['' @ format_timestamp (seg_start seg) @ ascii '' '' @ [8594] @ ascii '' ''
         @ format_timestamp (seg_end seg) @ ascii ''] '', True),
      (strip (seg_text seg), False)]"

text \<open>
  A sequence of calls of \<open>registro\<close> on the same log file, within a run or across runs;
  a call that raises writes nothing.
\<close>

fun record_calls :: "((exn + info) \<times> pystr) list \<Rightarrow> csv_file \<Rightarrow> csv_file" where
  "record_calls [] f = f"
| "record_calls ((x, url) # calls) f =
     (case registro x url f of
        Inl e \<Rightarrow> record_calls calls f
      | Inr f' \<Rightarrow> record_calls calls f')"

text \<open>The audit records of a log file: its rows other than the header row.\<close>

definition audit_rows :: "csv_file \<Rightarrow> csv_row list" where
  "audit_rows f = filter (\<lambda>row. row \<noteq> header_row) (case f of None \<Rightarrow> [] | Some rows \<Rightarrow> rows)"

section \<open>Example inputs\<close>

definition example_info :: info where
  "example_info =
     \<lparr>title = Some (ascii ''Title: A/B?''),
      filepath = Some (ascii ''Title_ A_B_.webm''),
      upload_date = Some (PStr (ascii ''20081010'')),
      duration = Some (PInt 3725),
      view_count = Some (PInt 42),
      uploader = Some (PStr (ascii ''canal''))\<rparr>"

text \<open>
  Collaborators for which every stage succeeds, for which the transcription fails, and
  for which \<open>ffmpeg\<close> fails after the download succeeded; \<open>os.remove\<close> never raises.
\<close>

definition example_ok :: collab where
  "example_ok =
     \<lparr>download = Inr example_info,
      ffmpeg = None,
      transcribe = Inr \<lparr>res_text = ascii ''hola'', res_segments = Some []\<rparr>,
      save = None,
      remove_raises = (\<lambda>p. False)\<rparr>"

definition example_transcribe_fails :: collab where
  "example_transcribe_fails =
     example_ok\<lparr>transcribe := Inl (Exc CollaboratorError (ascii ''boom''))\<rparr>"

definition example_ffmpeg_fails :: collab where
  "example_ffmpeg_fails =
     example_ok\<lparr>ffmpeg := Some (Exc CalledProcessError (ascii ''ffmpeg''))\<rparr>"

text \<open>A batch whose first item succeeds and whose later items fail at the transcription.\<close>

definition example_world :: "nat \<Rightarrow> pystr \<Rightarrow> collab" where
  "example_world idx url = (if idx = 1 then example_ok else example_transcribe_fails)"


text \<open>
  A file \<open>videos.csv\<close> that exists and holds \<open>url\<close>, \<open>123\<close>, \<open>456\<close> on three lines:
  pandas parses the column as integers. And a file that exists and that pandas cannot
  read.
\<close>

definition example_os_numeric :: os_env where
  "example_os_numeric =
     \<lparr>path_exists = (\<lambda>p. True),
      read_csv = (\<lambda>p. Inr [ascii ''url'' \<mapsto> [NonText, NonText]])\<rparr>"



definition empty_state :: state where
  "empty_state = \<lparr>files = {}, docs = Map.empty, log = None, exitosos = 0, fallidos = 0\<rparr>"

section \<open>Properties of the timestamp formatter\<close>

lemma py_int_of_int: "py_int (of_int n) = n"
  by (simp add: py_int_def)

lemma pymod_nonneg: "0 < y \<Longrightarrow> 0 \<le> pymod x y"
  using floor_divide_lower [of y x] by (simp add: pymod_def mult.commute)

lemma floor_pymod: "0 < k \<Longrightarrow> \<lfloor>pymod s (of_int k)\<rfloor> = \<lfloor>s\<rfloor> mod k"
proof -
  assume k: "0 < k"
  have "\<lfloor>s / of_int k\<rfloor> = \<lfloor>s\<rfloor> div k"
    using floor_divide_real_eq_div [of k s] k by simp
  then have "pymod s (of_int k) = s - of_int (k * (\<lfloor>s\<rfloor> div k))"
    by (simp add: pymod_def)
  then have "\<lfloor>pymod s (of_int k)\<rfloor> = \<lfloor>s\<rfloor> - k * (\<lfloor>s\<rfloor> div k)"
    by (simp only: floor_diff_of_int)
  then show ?thesis
    by (simp add: minus_mult_div_eq_mod)
qed

lemma hours_eq: "py_int (floordiv s 3600) = \<lfloor>s\<rfloor> div 3600"
  using floor_divide_real_eq_div [of 3600 s] by (simp add: floordiv_def py_int_of_int)

lemma minutes_eq: "py_int (floordiv (pymod s 3600) 60) = \<lfloor>s\<rfloor> mod 3600 div 60"
  using floor_divide_real_eq_div [of 60 "pymod s 3600"] floor_pymod [of 3600 s]
  by (simp add: floordiv_def py_int_of_int)

lemma secs_eq: "py_int (pymod s 60) = \<lfloor>s\<rfloor> mod 60"
  using floor_pymod [of 60 s] pymod_nonneg [of 60 s] by (simp add: py_int_def)

lemma format_timestamp_floor:
  "format_timestamp s =
     (if 3600 \<le> \<lfloor>s\<rfloor>
      then fmt_02d (\<lfloor>s\<rfloor> div 3600) @ ascii '':'' @ fmt_02d (\<lfloor>s\<rfloor> mod 3600 div 60)
             @ ascii '':'' @ fmt_02d (\<lfloor>s\<rfloor> mod 60)
      else fmt_02d (\<lfloor>s\<rfloor> mod 3600 div 60) @ ascii '':'' @ fmt_02d (\<lfloor>s\<rfloor> mod 60))"
proof -
  have "0 < \<lfloor>s\<rfloor> div 3600 \<longleftrightarrow> 3600 \<le> \<lfloor>s\<rfloor>"
    by (simp add: pos_imp_zdiv_pos_iff)
  then show ?thesis
    by (simp add: format_timestamp_def hours_eq minutes_eq secs_eq Let_def)
qed

lemma length_zfill_small: "n < 100 \<Longrightarrow> length (zfill 2 (str_nat n)) = 2"
proof -
  assume n: "n < 100"
  show ?thesis
  proof (cases "n < 10")
    case True
    then show ?thesis by (simp add: str_nat.simps zfill_def)
  next
    case False
    with n have "n div 10 < 10" by simp
    with False show ?thesis
      by (simp add: str_nat.simps [of n] str_nat.simps [of "n div 10"] zfill_def)
  qed
qed

lemma length_fmt_02d: "0 \<le> n \<Longrightarrow> n < 100 \<Longrightarrow> length (fmt_02d n) = 2"
  using length_zfill_small [of "nat n"] by (simp add: fmt_02d_def)

lemma length_fmt_02d_ge: "0 \<le> n \<Longrightarrow> 2 \<le> length (fmt_02d n)"
  by (simp add: fmt_02d_def zfill_def)

lemmas timestamp_eval =
  format_timestamp_def floordiv_def pymod_def py_int_def fmt_02d_def zfill_def
  str_nat.simps digit_char_def ascii_def Let_def

text \<open>
  C4. For a non-negative number of seconds \<open>s\<close> the formatter depends on \<open>\<lfloor>s\<rfloor>\<close> only
  (it never rounds up). From 3600 whole seconds on it gives three fields, hours, minutes
  and seconds, each padded to two digits; below that it gives the two fields minutes
  and seconds, five characters in all. 0 gives 00:00, 125 gives 02:05, 3725 gives
  01:02:05.
\<close>

theorem format_timestamp_spec:
  assumes "0 \<le> s"
  shows "format_timestamp s = format_timestamp (of_int \<lfloor>s\<rfloor>)
    \<and> format_timestamp s =
        (if 3600 \<le> \<lfloor>s\<rfloor>
         then fmt_02d (\<lfloor>s\<rfloor> div 3600) @ ascii '':'' @ fmt_02d (\<lfloor>s\<rfloor> mod 3600 div 60)
                @ ascii '':'' @ fmt_02d (\<lfloor>s\<rfloor> mod 60)
         else fmt_02d (\<lfloor>s\<rfloor> div 60) @ ascii '':'' @ fmt_02d (\<lfloor>s\<rfloor> mod 60))
    \<and> (if 3600 \<le> \<lfloor>s\<rfloor> then 8 \<le> length (format_timestamp s)
        else length (format_timestamp s) = 5)
    \<and> format_timestamp 0 = ascii ''00:00''
    \<and> format_timestamp 125 = ascii ''02:05''
    \<and> format_timestamp 3725 = ascii ''01:02:05''"
proof -
  from assms have n: "0 \<le> \<lfloor>s\<rfloor>" by simp
  have a: "format_timestamp s = format_timestamp (of_int \<lfloor>s\<rfloor>)"
    by (simp add: format_timestamp_floor [of s] format_timestamp_floor [of "of_int \<lfloor>s\<rfloor>"])
  have m: "\<lfloor>s\<rfloor> < 3600 \<Longrightarrow> \<lfloor>s\<rfloor> mod 3600 div 60 = \<lfloor>s\<rfloor> div 60"
    using n by simp
  have b: "format_timestamp s =
        (if 3600 \<le> \<lfloor>s\<rfloor>
         then fmt_02d (\<lfloor>s\<rfloor> div 3600) @ ascii '':'' @ fmt_02d (\<lfloor>s\<rfloor> mod 3600 div 60)
                @ ascii '':'' @ fmt_02d (\<lfloor>s\<rfloor> mod 60)
         else fmt_02d (\<lfloor>s\<rfloor> div 60) @ ascii '':'' @ fmt_02d (\<lfloor>s\<rfloor> mod 60))"
    using m by (simp add: format_timestamp_floor [of s])
  have mins: "length (fmt_02d (\<lfloor>s\<rfloor> mod 3600 div 60)) = 2"
    by (rule length_fmt_02d) (simp, simp add: div_less_iff_less_mult)
  have secs: "length (fmt_02d (\<lfloor>s\<rfloor> mod 60)) = 2"
    by (rule length_fmt_02d) simp_all
  have hrs: "2 \<le> length (fmt_02d (\<lfloor>s\<rfloor> div 3600))"
    using n by (simp add: length_fmt_02d_ge pos_imp_zdiv_nonneg_iff)
  have c: "if 3600 \<le> \<lfloor>s\<rfloor> then 8 \<le> length (format_timestamp s)
        else length (format_timestamp s) = 5"
    using mins secs hrs by (simp add: format_timestamp_floor [of s] ascii_def)
  have d: "format_timestamp 0 = ascii ''00:00''"
    by (simp add: timestamp_eval)
  have e: "format_timestamp 125 = ascii ''02:05''"
    by (simp add: timestamp_eval)
  have f: "format_timestamp 3725 = ascii ''01:02:05''"
    by (simp add: timestamp_eval)
  from a b c d e f show ?thesis by blast
qed

theorem format_timestamp_spec_witness:
  "(0::real) \<le> 7325.9 \<and> format_timestamp 7325.9 = ascii ''02:02:05''
   \<and> (0::real) \<le> 59.99 \<and> format_timestamp 59.99 = ascii ''00:59''"
proof -
  have h1: "(0::real) \<le> 7325.9" by simp
  have h2: "(0::real) \<le> 59.99" by simp
  have f1: "\<lfloor>7325.9::real\<rfloor> = 7325" by (simp add: floor_eq_iff)
  have f2: "\<lfloor>59.99::real\<rfloor> = 59" by (simp add: floor_eq_iff)
  have p1: "fmt_02d 2 = ascii ''02''" "fmt_02d 5 = ascii ''05''" "fmt_02d 0 = ascii ''00''"
    "fmt_02d 59 = ascii ''59''"
    by (simp_all add: fmt_02d_def zfill_def str_nat.simps digit_char_def ascii_def)
  have r1: "format_timestamp 7325.9 = ascii ''02:02:05''"
    using format_timestamp_spec [OF h1, THEN conjunct2, THEN conjunct1]
    by (simp add: f1 p1 ascii_def)
  have r2: "format_timestamp 59.99 = ascii ''00:59''"
    using format_timestamp_spec [OF h2, THEN conjunct2, THEN conjunct1]
    by (simp add: f2 p1 ascii_def)
  from h1 h2 r1 r2 show ?thesis by blast
qed

section \<open>Properties of the title sanitiser\<close>

lemma reserved_eval: "set reserved = {60, 62, 58, 34, 47, 92, 124, 63, 42}"
  by (simp add: reserved_def ascii_def)

lemma underscore_not_reserved: "of_char (CHR ''_'') \<notin> set reserved"
  by (simp add: reserved_eval)

text \<open>
  C6. The sanitiser keeps the length of its input; at every position a reserved
  character becomes an underscore (code point 95) and any other character stays. The
  reserved characters are exactly the nine characters \<open>< > : " / \ | ? *\<close>, code points
  60, 62, 58, 34, 47, 92, 124, 63 and 42. Sanitising twice is sanitising once;
  \<open>Title: A/B?\<close> becomes \<open>Title_ A_B_\<close>, which the sanitiser leaves as it is.
\<close>

theorem safe_title_spec:
  "length (safe_title t) = length t
   \<and> (\<forall>i<length t. safe_title t ! i =
         (if t ! i \<in> set reserved then of_char (CHR ''_'') else t ! i))
   \<and> set reserved = {60, 62, 58, 34, 47, 92, 124, 63, 42}
   \<and> set reserved = set (ascii ''<>:/|?*'') \<union> {34, 92}
   \<and> of_char (CHR ''_'') = (95::nat)
   \<and> safe_title (safe_title t) = safe_title t
   \<and> safe_title (ascii ''Title: A/B?'') = ascii ''Title_ A_B_''
   \<and> safe_title (ascii ''Title_ A_B_'') = ascii ''Title_ A_B_''"
proof -
  have a: "length (safe_title t) = length t"
    by (simp add: safe_title_def)
  have b: "\<forall>i<length t. safe_title t ! i =
      (if t ! i \<in> set reserved then of_char (CHR ''_'') else t ! i)"
    by (simp add: safe_title_def)
  have r: "set reserved = set (ascii ''<>:/|?*'') \<union> {34, 92}"
    by (auto simp: reserved_def ascii_def)
  have u: "of_char (CHR ''_'') = (95::nat)"
    by simp
  have c: "safe_title (safe_title t) = safe_title t"
    using underscore_not_reserved by (simp add: safe_title_def)
  have d: "safe_title (ascii ''Title: A/B?'') = ascii ''Title_ A_B_''"
    by (simp add: safe_title_def reserved_eval ascii_def)
  have e: "safe_title (ascii ''Title_ A_B_'') = ascii ''Title_ A_B_''"
    by (simp add: safe_title_def reserved_eval ascii_def)
  show ?thesis
    using a b reserved_eval r u c d e by (intro conjI)
qed

theorem safe_title_spec_witness:
  "safe_title [60, 97, 42] ! 0 = 95 \<and> safe_title [60, 97, 42] ! 1 = 97
   \<and> safe_title [60, 97, 42] ! 2 = 95 \<and> length (safe_title [60, 97, 42]) = 3
   \<and> safe_title (safe_title [60, 97, 42]) = safe_title [60, 97, 42]"
proof -
  let ?t = "[60, 97, 42] :: pystr"
  note s = safe_title_spec [of ?t]
  note s1 = s [THEN conjunct1]
  note s2 = s [THEN conjunct2, THEN conjunct1, rule_format]
  note s3 = s [THEN conjunct2, THEN conjunct2, THEN conjunct1]
  note s6 = s [THEN conjunct2, THEN conjunct2, THEN conjunct2, THEN conjunct2, THEN conjunct2,
      THEN conjunct1]
  have len: "length (safe_title ?t) = 3"
    using s1 by simp
  have n0: "safe_title ?t ! 0 = 95"
    using s2 [of 0] by (simp add: s3)
  have n1: "safe_title ?t ! 1 = 97"
    using s2 [of 1] by (simp add: s3)
  have n2: "safe_title ?t ! 2 = 95"
    using s2 [of 2] by (simp add: s3)
  show ?thesis
    using n0 n1 n2 len s6 by (intro conjI)
qed

section \<open>Properties of \<open>strip\<close>\<close>

text \<open>
  \<open>strip\<close> removes a run of whitespace at each end and nothing else, and what is left
  neither starts nor ends with whitespace.
\<close>

lemma strip_split:
  "dropWhile isspace s = strip s @ rev (takeWhile isspace (rev (dropWhile isspace s)))"
proof -
  let ?d = "dropWhile isspace s"
  have "rev (takeWhile isspace (rev ?d) @ dropWhile isspace (rev ?d)) = rev (rev ?d)"
    by (simp only: takeWhile_dropWhile_id)
  then have "rev (dropWhile isspace (rev ?d)) @ rev (takeWhile isspace (rev ?d)) = ?d"
    by (simp only: rev_append rev_rev_ident)
  then show ?thesis
    by (simp only: strip_def)
qed

lemma strip_decomp:
  "\<exists>a b. s = a @ strip s @ b \<and> list_all isspace a \<and> list_all isspace b"
proof -
  let ?a = "takeWhile isspace s"
  let ?b = "rev (takeWhile isspace (rev (dropWhile isspace s)))"
  have "?a @ dropWhile isspace s = s"
    by (rule takeWhile_dropWhile_id)
  with strip_split [of s] have 1: "s = ?a @ strip s @ ?b"
    by simp
  have 2: "list_all isspace ?a"
    by (simp add: list_all_iff) (meson set_takeWhileD)
  have 3: "list_all isspace ?b"
    by (simp add: list_all_iff) (meson set_takeWhileD)
  from 1 2 3 show ?thesis by blast
qed

lemma strip_ends:
  assumes "strip s \<noteq> []"
  shows "\<not> isspace (hd (strip s))" and "\<not> isspace (last (strip s))"
proof -
  let ?d = "dropWhile isspace s"
  let ?e = "dropWhile isspace (rev ?d)"
  from assms have e: "?e \<noteq> []" by (simp add: strip_def)
  then have "\<not> isspace (hd ?e)" by (rule hd_dropWhile)
  with e show "\<not> isspace (last (strip s))"
    by (simp add: strip_def last_rev)
  from e have d: "?d \<noteq> []" by (cases "dropWhile isspace s") simp_all
  then have nd: "\<not> isspace (hd ?d)" by (rule hd_dropWhile)
  from assms strip_split [of s] have "hd ?d = hd (strip s)"
    by (metis hd_append2)
  with nd show "\<not> isspace (hd (strip s))" by simp
qed

lemma strip_ex: "strip (ascii ''  a b  '') = ascii ''a b''"
  by (simp add: strip_def isspace_def ascii_def)

section \<open>Properties of the document renderer\<close>

lemma add_segments_paragraphs:
  "paragraphs (add_segments doc segs) = paragraphs doc @ map spec_paragraph segs"
  by (induction doc segs rule: add_segments.induct) (simp_all add: spec_paragraph_def Let_def)

lemma add_segments_heading: "heading (add_segments doc segs) = heading doc"
  by (induction doc segs rule: add_segments.induct) (simp_all add: Let_def)

text \<open>
  C5, as amended. When the result carries a segments entry, the document has one
  paragraph per segment, in order (none when the sequence is empty): a bold run
  \<open>[start \<rightarrow> end]\<close> followed by a blank, both times formatted by the timestamp formatter,
  then the stripped text of the segment. When the result carries no segments entry, the
  document has a single paragraph holding the full text as it is. The document is saved
  under the given name.
\<close>

theorem word_doc_spec:
  "(\<forall>segs. res_segments r = Some segs \<longrightarrow>
       paragraphs (word_doc r) = map spec_paragraph segs
     \<and> length (paragraphs (word_doc r)) = length segs
     \<and> (\<forall>i<length segs. paragraphs (word_doc r) ! i =
          [(ascii ''['' @ format_timestamp (seg_start (segs ! i)) @ ascii '' '' @ [8594]
              @ ascii '' '' @ format_timestamp (seg_end (segs ! i)) @ ascii ''] '', True),
           (strip (seg_text (segs ! i)), False)]))
   \<and> (res_segments r = None \<longrightarrow> paragraphs (word_doc r) = [[(res_text r, False)]])
   \<and> word None r documento ds = Inr (ds(documento \<mapsto> word_doc r))"
proof -
  have a: "paragraphs (word_doc r) = map spec_paragraph segs"
    if "res_segments r = Some segs" for segs
    using that by (simp add: word_doc_def add_segments_paragraphs)
  have b: "paragraphs (word_doc r) ! i =
          [(ascii ''['' @ format_timestamp (seg_start (segs ! i)) @ ascii '' '' @ [8594]
              @ ascii '' '' @ format_timestamp (seg_end (segs ! i)) @ ascii ''] '', True),
           (strip (seg_text (segs ! i)), False)]"
    if "res_segments r = Some segs" "i < length segs" for segs i
    using that by (simp add: a spec_paragraph_def)
  have c: "paragraphs (word_doc r) = [[(res_text r, False)]]" if "res_segments r = None"
    using that by (simp add: word_doc_def)
  have d: "word None r documento ds = Inr (ds(documento \<mapsto> word_doc r))"
    by (simp add: word_def)
  from a b c d show ?thesis by simp
qed

theorem word_doc_spec_witness:
  "paragraphs (word_doc \<lparr>res_text = ascii ''hola'', res_segments =
      Some [\<lparr>seg_start = 0, seg_end = 2.5, seg_text = ascii '' hola ''\<rparr>]\<rparr>)
     = [[(ascii ''[00:00 '' @ [8594] @ ascii '' 00:02] '', True), (ascii ''hola'', False)]]
   \<and> paragraphs (word_doc \<lparr>res_text = ascii ''hola'', res_segments = None\<rparr>)
     = [[(ascii ''hola'', False)]]"
proof -
  let ?seg = "\<lparr>seg_start = 0, seg_end = 2.5, seg_text = ascii '' hola ''\<rparr>"
  let ?r = "\<lparr>res_text = ascii ''hola'', res_segments = Some [?seg]\<rparr>"
  let ?q = "\<lparr>res_text = ascii ''hola'', res_segments = None\<rparr>"
  have p: "spec_paragraph ?seg =
      [(ascii ''[00:00 '' @ [8594] @ ascii '' 00:02] '', True), (ascii ''hola'', False)]"
    by (simp add: spec_paragraph_def timestamp_eval strip_def isspace_def)
  have 1: "paragraphs (word_doc ?r) = map spec_paragraph [?seg]"
    using word_doc_spec [of ?r] by simp
  have 2: "paragraphs (word_doc ?q) = [[(ascii ''hola'', False)]]"
    using word_doc_spec [of ?q] by simp
  from 1 2 p show ?thesis by simp
qed

text \<open>
  C5 as stated fails: with an empty segments sequence the document has no paragraph at
  all, not one holding the full text.
\<close>

theorem word_doc_empty_segments_counterexample:
  "res_segments \<lparr>res_text = ascii ''hola'', res_segments = Some []\<rparr> = Some []
   \<and> paragraphs (word_doc \<lparr>res_text = ascii ''hola'', res_segments = Some []\<rparr>) = []
   \<and> paragraphs (word_doc \<lparr>res_text = ascii ''hola'', res_segments = Some []\<rparr>)
       \<noteq> [[(res_text \<lparr>res_text = ascii ''hola'', res_segments = Some []\<rparr>, False)]]"
  by (simp add: word_doc_def)

section \<open>Properties of the input resolver\<close>

lemma collect_urls_acc:
  "NonText \<notin> set cells \<Longrightarrow> collect_urls cells urls = Inr (urls @ spec_urls cells)"
  by (induction cells urls rule: collect_urls.induct) (simp_all add: spec_urls_def)

lemma collect_urls_NonText:
  "NonText \<in> set cells \<Longrightarrow> \<exists>m. collect_urls cells urls = Inl (Exc AttributeError m)"
  by (induction cells urls rule: collect_urls.induct) auto

text \<open>
  For a file that pandas parses and a column \<open>url\<close> of strings and missing values:
  \<open>extract_url\<close> fails with a validation error when the path does not end in \<open>.csv\<close>,
  when the file does not exist, when the table has no column \<open>url\<close>, and when no entry
  is left after filtering; otherwise it returns the stripped non-blank entries in row
  order.
\<close>

lemma extract_url_spec:
  "(\<not> endswith csv (ascii ''.csv'') \<longrightarrow> validation_error (extract_url os csv))
   \<and> (\<not> path_exists os csv \<longrightarrow> validation_error (extract_url os csv))
   \<and> (\<forall>df. endswith csv (ascii ''.csv'') \<and> path_exists os csv \<and> read_csv os csv = Inr df \<longrightarrow>
         (df (ascii ''url'') = None \<longrightarrow> validation_error (extract_url os csv))
       \<and> (\<forall>cells. df (ascii ''url'') = Some cells \<and> NonText \<notin> set cells \<longrightarrow>
            (spec_urls cells = [] \<longrightarrow> validation_error (extract_url os csv))
          \<and> (spec_urls cells \<noteq> [] \<longrightarrow> extract_url os csv = Inr (spec_urls cells))))"
  by (simp add: extract_url_def collect_urls_acc)

lemma extract_url_spec_example:
  "extract_url
     \<lparr>path_exists = (\<lambda>p. True),
      read_csv = (\<lambda>p. Inr [ascii ''url'' \<mapsto>
        [Text (ascii '' a ''), NaN, Text (ascii ''  ''), Text (ascii ''b'')]])\<rparr>
     (ascii ''v.csv'') = Inr [ascii ''a'', ascii ''b'']
   \<and> validation_error (extract_url
     \<lparr>path_exists = (\<lambda>p. True),
      read_csv = (\<lambda>p. Inr [ascii ''url'' \<mapsto>
        [Text (ascii '' a ''), NaN, Text (ascii ''  ''), Text (ascii ''b'')]])\<rparr>
     (ascii ''v.txt''))"
proof -
  let ?cells = "[Text (ascii '' a ''), NaN, Text (ascii ''  ''), Text (ascii ''b'')]"
  let ?df = "[ascii ''url'' \<mapsto> ?cells]"
  let ?os = "\<lparr>path_exists = (\<lambda>p. True), read_csv = (\<lambda>p. Inr ?df)\<rparr>"
  have e1: "endswith (ascii ''v.csv'') (ascii ''.csv'')"
    by (simp add: endswith_def ascii_def)
  have e2: "\<not> endswith (ascii ''v.txt'') (ascii ''.csv'')"
    by (simp add: endswith_def ascii_def)
  have u: "spec_urls ?cells = [ascii ''a'', ascii ''b'']"
    by (simp add: spec_urls_def strip_def isspace_def ascii_def)
  have n: "NonText \<notin> set ?cells"
    by simp
  have c: "?df (ascii ''url'') = Some ?cells"
    by simp
  have 1: "extract_url ?os (ascii ''v.csv'') = Inr [ascii ''a'', ascii ''b'']"
    using extract_url_spec [of "ascii ''v.csv''" ?os] e1 u n c by simp
  have 2: "validation_error (extract_url ?os (ascii ''v.txt''))"
    using extract_url_spec [of "ascii ''v.txt''" ?os] e2 by blast
  from 1 2 show ?thesis by blast
qed




text \<open>
  C8 does not hold of the program. The guard of the loop tests \<open>str(link).strip()\<close>, but
  the entry appended is \<open>link.strip()\<close>: on a column \<open>url\<close> that pandas parsed as
  numbers, \<open>extract_url\<close> raises \<open>AttributeError\<close>, which is neither a validation error
  nor a list of entries.
\<close>

theorem extract_url_numeric_column:
  "extract_url example_os_numeric (ascii ''videos.csv'')
     = Inl (Exc AttributeError (ascii ''object has no attribute strip''))
   \<and> \<not> validation_error (extract_url example_os_numeric (ascii ''videos.csv''))"
  by (simp add: extract_url_def example_os_numeric_def endswith_def ascii_def)

section \<open>Properties of the audit logger\<close>

lemma error_row_not_header: "error_row e url \<noteq> header_row"
  by (simp add: error_row_def header_row_def ascii_def)

lemma success_row_not_header: "success_row i d url \<noteq> header_row"
  by (simp add: success_row_def header_row_def ascii_def)

lemma error_row_shape: "length (error_row e url) = 7" "error_row e url ! 5 = PStr url"
  by (simp_all add: error_row_def)

lemma success_row_shape: "length (success_row i d url) = 7" "success_row i d url ! 5 = PStr url"
  by (simp_all add: success_row_def)

lemma registro_row:
  assumes "registro x url f = Inr f'"
  shows "\<exists>row. f' = to_csv row f \<and> row \<noteq> header_row \<and> length row = 7 \<and> row ! 5 = PStr url"
proof (cases x)
  case (Inl e)
  with assms have "f' = to_csv (error_row e url) f"
    by (simp add: registro_def)
  with error_row_not_header error_row_shape show ?thesis
    by blast
next
  case (Inr i)
  with assms obtain d where "f' = to_csv (success_row i d url) f"
    by (auto simp: registro_def split: sum.splits)
  with success_row_not_header success_row_shape show ?thesis
    by blast
qed

lemma registro_error: "registro (Inl e) url f = Inr (to_csv (error_row e url) f)"
  by (simp add: registro_def)

lemma registro_success_str:
  "upload_date i = Some (PStr s) \<Longrightarrow>
   registro (Inr i) url f =
     Inr (to_csv (success_row i
       (PStr (if length s = 8
              then take 4 s @ ascii ''-'' @ take 2 (drop 4 s) @ ascii ''-'' @ take 2 (drop 6 s)
              else s)) url) f)"
  by (auto simp: registro_def format_upload_date_def get_or_NA_def NA_def ascii_def)

lemma registro_success_absent:
  "upload_date i = None \<Longrightarrow> registro (Inr i) url f = Inr (to_csv (success_row i (PStr NA) url) f)"
  by (simp add: registro_def format_upload_date_def get_or_NA_def)

lemma to_csv_None: "to_csv row None = Some [header_row, row]"
  by (simp add: to_csv_def)

lemma to_csv_Some: "to_csv row (Some rows) = Some (rows @ [row])"
  by (simp add: to_csv_def)

lemma record_calls_Some:
  "\<exists>new. record_calls calls (Some rows) = Some (rows @ new) \<and> header_row \<notin> set new"
proof (induction calls arbitrary: rows)
  case Nil
  then show ?case by simp
next
  case (Cons call calls)
  obtain x url where call: "call = (x, url)" by (cases call)
  show ?case
  proof (cases "registro x url (Some rows)")
    case (Inl e)
    with call Cons.IH [of rows] show ?thesis by simp
  next
    case (Inr f')
    then obtain row where row: "f' = Some (rows @ [row])" "row \<noteq> header_row"
      using registro_row [of x url "Some rows" f'] by (auto simp: to_csv_Some)
    from Cons.IH [of "rows @ [row]"] obtain new
      where new: "record_calls calls (Some (rows @ [row])) = Some ((rows @ [row]) @ new)"
        "header_row \<notin> set new" by blast
    from call Inr row new have "record_calls (call # calls) (Some rows) = Some (rows @ (row # new))"
      by simp
    moreover from row new have "header_row \<notin> set (row # new)" by auto
    ultimately show ?thesis by blast
  qed
qed

lemma record_calls_None:
  "record_calls calls None = None
   \<or> (\<exists>new. record_calls calls None = Some (header_row # new) \<and> header_row \<notin> set new)"
proof (induction calls)
  case Nil
  then show ?case by simp
next
  case (Cons call calls)
  obtain x url where call: "call = (x, url)" by (cases call)
  show ?case
  proof (cases "registro x url None")
    case (Inl e)
    with call Cons.IH show ?thesis by simp
  next
    case (Inr f')
    then obtain row where row: "f' = Some [header_row, row]" "row \<noteq> header_row"
      using registro_row [of x url None f'] by (auto simp: to_csv_None)
    from record_calls_Some [of calls "[header_row, row]"] obtain new
      where new: "record_calls calls (Some [header_row, row]) = Some ([header_row, row] @ new)"
        "header_row \<notin> set new" by blast
    from call Inr row new
    have "record_calls (call # calls) None = Some (header_row # (row # new))"
      by simp
    moreover from row new have "header_row \<notin> set (row # new)" by auto
    ultimately show ?thesis by blast
  qed
qed

text \<open>
  C9. A call of \<open>registro\<close> on a log file that does not exist writes the header row and
  then its own row; a call on a file that exists appends its own row after the rows
  that are there, which stay as they are and in their order. The row of a call is never
  the header row. So after any sequence of calls that started without a file, the header
  row is the first row and occurs nowhere else, and after any sequence of calls on an
  existing file, the old rows are a prefix and no header row has been added.
\<close>

theorem registro_header_once:
  "(\<forall>f'. registro x url None = Inr f' \<longrightarrow>
        (\<exists>row. f' = Some [header_row, row] \<and> row \<noteq> header_row))
   \<and> (\<forall>rows f'. registro x url (Some rows) = Inr f' \<longrightarrow>
        (\<exists>row. f' = Some (rows @ [row]) \<and> row \<noteq> header_row))
   \<and> (record_calls calls None = None
        \<or> (\<exists>new. record_calls calls None = Some (header_row # new) \<and> header_row \<notin> set new))
   \<and> (\<forall>rows. \<exists>new. record_calls calls (Some rows) = Some (rows @ new)
        \<and> header_row \<notin> set new)"
proof -
  have a: "\<exists>row. f' = Some [header_row, row] \<and> row \<noteq> header_row"
    if "registro x url None = Inr f'" for f'
    using registro_row [OF that] by (auto simp: to_csv_None)
  have b: "\<exists>row. f' = Some (rows @ [row]) \<and> row \<noteq> header_row"
    if "registro x url (Some rows) = Inr f'" for rows f'
    using registro_row [OF that] by (auto simp: to_csv_Some)
  from a b record_calls_None [of calls] record_calls_Some [of calls] show ?thesis
    by blast
qed


theorem registro_header_once_witness:
  "record_calls [(Inl (Exc CollaboratorError (ascii ''boom'')), ascii ''u1''),
                 (Inr example_info, ascii ''u2'')] None \<noteq> None
   \<and> (\<exists>new. record_calls [(Inl (Exc CollaboratorError (ascii ''boom'')), ascii ''u1''),
                 (Inr example_info, ascii ''u2'')] None = Some (header_row # new)
          \<and> header_row \<notin> set new)
   \<and> (\<exists>row. registro (Inr example_info) (ascii ''u2'') None = Inr (Some [header_row, row])
          \<and> row \<noteq> header_row)
   \<and> (\<exists>row. registro (Inr example_info) (ascii ''u2'') (Some [header_row])
            = Inr (Some ([header_row] @ [row]))
          \<and> row \<noteq> header_row)"
proof -
  let ?calls = "[(Inl (Exc CollaboratorError (ascii ''boom'')), ascii ''u1''),
                 (Inr example_info, ascii ''u2'')]"
  have d: "upload_date example_info = Some (PStr (ascii ''20081010''))"
    by (simp add: example_info_def)
  have 1: "record_calls ?calls None \<noteq> None"
    by (simp add: registro_error registro_success_str [OF d] to_csv_None to_csv_Some)
  have r: "\<exists>f'. registro (Inr example_info) (ascii ''u2'') f = Inr f'" for f
    by (simp add: registro_success_str [OF d])
  from r [of None] obtain f1 where f1: "registro (Inr example_info) (ascii ''u2'') None = Inr f1"
    by blast
  from r [of "Some [header_row]"] obtain f2
    where f2: "registro (Inr example_info) (ascii ''u2'') (Some [header_row]) = Inr f2"
    by blast
  note t = registro_header_once [of "Inr example_info" "ascii ''u2''" ?calls]
  from t [THEN conjunct2, THEN conjunct2, THEN conjunct1] 1
  have 2: "\<exists>new. record_calls ?calls None = Some (header_row # new)
      \<and> header_row \<notin> set new"
    by blast
  from t [THEN conjunct1, rule_format, OF f1] f1
  have 3: "\<exists>row. registro (Inr example_info) (ascii ''u2'') None
      = Inr (Some [header_row, row]) \<and> row \<noteq> header_row"
    by simp
  from t [THEN conjunct2, THEN conjunct1, rule_format, OF f2] f2
  have 4: "\<exists>row. registro (Inr example_info) (ascii ''u2'') (Some [header_row])
      = Inr (Some ([header_row] @ [row])) \<and> row \<noteq> header_row"
    by simp
  from 1 2 3 4 show ?thesis by blast
qed

text \<open>
  C7, as amended. On the success path, an upload date of eight characters \<open>YYYYMMDD\<close>
  is recorded as \<open>YYYY-MM-DD\<close>; a missing upload date is recorded as \<open>N/A\<close>; a string
  of any other length is recorded as it is. The date is the second cell of the row, under
  the column \<open>upload_date\<close>.
\<close>

theorem registro_upload_date_cell:
  "(\<forall>y m d. upload_date i = Some (PStr (y @ m @ d)) \<and> length y = 4 \<and> length m = 2
        \<and> length d = 2 \<longrightarrow>
      registro (Inr i) url f =
        Inr (to_csv (success_row i (PStr (y @ ascii ''-'' @ m @ ascii ''-'' @ d)) url) f))
   \<and> (upload_date i = None \<longrightarrow>
        registro (Inr i) url f = Inr (to_csv (success_row i (PStr NA) url) f))
   \<and> (\<forall>s. upload_date i = Some (PStr s) \<and> length s \<noteq> 8 \<longrightarrow>
        registro (Inr i) url f = Inr (to_csv (success_row i (PStr s) url) f))
   \<and> success_row i date url ! 1 = date
   \<and> header_row ! 1 = PStr (ascii ''upload_date'')"
proof -
  have a: "registro (Inr i) url f =
        Inr (to_csv (success_row i (PStr (y @ ascii ''-'' @ m @ ascii ''-'' @ d)) url) f)"
    if "upload_date i = Some (PStr (y @ m @ d))" "length y = 4" "length m = 2" "length d = 2"
    for y m d
    using that by (simp add: registro_success_str [OF that(1)])
  have b: "registro (Inr i) url f = Inr (to_csv (success_row i (PStr s) url) f)"
    if "upload_date i = Some (PStr s)" "length s \<noteq> 8" for s
    using that by (simp add: registro_success_str [OF that(1)])
  have c: "success_row i date url ! 1 = date"
    by (simp add: success_row_def)
  have d: "header_row ! 1 = PStr (ascii ''upload_date'')"
    by (simp add: header_row_def)
  from a b c d registro_success_absent [of i url f] show ?thesis by blast
qed

theorem registro_upload_date_cell_witness:
  "registro (Inr example_info) (ascii ''u'') None =
     Inr (to_csv (success_row example_info (PStr (ascii ''2008-10-10'')) (ascii ''u'')) None)
   \<and> registro (Inr (example_info\<lparr>upload_date := None\<rparr>)) (ascii ''u'') None =
     Inr (to_csv (success_row (example_info\<lparr>upload_date := None\<rparr>) (PStr NA) (ascii ''u'')) None)
   \<and> registro (Inr (example_info\<lparr>upload_date := Some (PStr (ascii ''2008''))\<rparr>)) (ascii ''u'') None =
     Inr (to_csv (success_row (example_info\<lparr>upload_date := Some (PStr (ascii ''2008''))\<rparr>)
            (PStr (ascii ''2008'')) (ascii ''u'')) None)"
proof -
  let ?i2 = "example_info\<lparr>upload_date := None\<rparr>"
  let ?i3 = "example_info\<lparr>upload_date := Some (PStr (ascii ''2008''))\<rparr>"
  have d1: "upload_date example_info = Some (PStr (ascii ''2008'' @ ascii ''10'' @ ascii ''10''))"
    by (simp add: example_info_def ascii_def)
  have l: "length (ascii ''2008'') = 4" "length (ascii ''10'') = 2"
    "length (ascii ''2008'') \<noteq> 8"
    by (simp_all add: ascii_def)
  have j: "ascii ''2008'' @ ascii ''-'' @ ascii ''10'' @ ascii ''-'' @ ascii ''10''
      = ascii ''2008-10-10''"
    by (simp add: ascii_def)
  have 1: "registro (Inr example_info) (ascii ''u'') None =
     Inr (to_csv (success_row example_info (PStr (ascii ''2008-10-10'')) (ascii ''u'')) None)"
    using registro_upload_date_cell [of example_info "ascii ''u''" None] d1 l j
    by metis
  have 2: "registro (Inr ?i2) (ascii ''u'') None =
     Inr (to_csv (success_row ?i2 (PStr NA) (ascii ''u'')) None)"
    using registro_upload_date_cell [of ?i2 "ascii ''u''" None] by simp
  have 3: "registro (Inr ?i3) (ascii ''u'') None =
     Inr (to_csv (success_row ?i3 (PStr (ascii ''2008'')) (ascii ''u'')) None)"
    using registro_upload_date_cell [of ?i3 "ascii ''u''" None] l by simp
  from 1 2 3 show ?thesis by blast
qed

text \<open>
  C7 as stated fails: an upload date in another format, here \<open>2008-10-10\<close>, is recorded
  as it is, not as \<open>N/A\<close>.
\<close>

theorem registro_other_format_counterexample:
  "registro (Inr (example_info\<lparr>upload_date := Some (PStr (ascii ''2008-10-10''))\<rparr>))
      (ascii ''u'') None =
     Inr (Some [header_row,
       success_row (example_info\<lparr>upload_date := Some (PStr (ascii ''2008-10-10''))\<rparr>)
         (PStr (ascii ''2008-10-10'')) (ascii ''u'')])
   \<and> success_row (example_info\<lparr>upload_date := Some (PStr (ascii ''2008-10-10''))\<rparr>)
         (PStr (ascii ''2008-10-10'')) (ascii ''u'') ! 1 = PStr (ascii ''2008-10-10'')
   \<and> PStr (ascii ''2008-10-10'') \<noteq> PStr NA"
  by (simp add: registro_def format_upload_date_def get_or_NA_def NA_def to_csv_def
        success_row_def ascii_def)

text \<open>
  C10. For an upload date that is a string, the recorded date depends on the length
  only: a string of length 8, digits or not, becomes its first four characters, a dash,
  the next two, a dash, and the last two; any other string is recorded as it is.
\<close>

theorem registro_date_by_length:
  assumes "upload_date i = Some (PStr s)"
  shows "\<exists>row. registro (Inr i) url f = Inr (to_csv row f)
    \<and> row ! 1 = PStr (if length s = 8
                      then take 4 s @ ascii ''-'' @ take 2 (drop 4 s) @ ascii ''-'' @ drop 6 s
                      else s)"
proof -
  let ?d = "PStr (if length s = 8
              then take 4 s @ ascii ''-'' @ take 2 (drop 4 s) @ ascii ''-'' @ take 2 (drop 6 s)
              else s)"
  have "registro (Inr i) url f = Inr (to_csv (success_row i ?d url) f)"
    by (rule registro_success_str [OF assms])
  moreover have "success_row i ?d url ! 1 = ?d"
    by (simp add: success_row_def)
  moreover have "length s = 8 \<Longrightarrow> take 2 (drop 6 s) = drop 6 s"
    by simp
  ultimately show ?thesis by auto
qed

theorem registro_date_by_length_witness:
  "(\<exists>row. registro (Inr (example_info\<lparr>upload_date := Some (PStr (ascii ''abcdefgh''))\<rparr>))
        (ascii ''u'') None = Inr (to_csv row None)
      \<and> row ! 1 = PStr (ascii ''abcd-ef-gh''))
   \<and> (\<exists>row. registro (Inr (example_info\<lparr>upload_date := Some (PStr (ascii ''N/A''))\<rparr>))
        (ascii ''u'') None = Inr (to_csv row None)
      \<and> row ! 1 = PStr (ascii ''N/A''))"
proof -
  let ?i1 = "example_info\<lparr>upload_date := Some (PStr (ascii ''abcdefgh''))\<rparr>"
  let ?i2 = "example_info\<lparr>upload_date := Some (PStr (ascii ''N/A''))\<rparr>"
  have u1: "upload_date ?i1 = Some (PStr (ascii ''abcdefgh''))" by simp
  have u2: "upload_date ?i2 = Some (PStr (ascii ''N/A''))" by simp
  have e1: "(if length (ascii ''abcdefgh'') = 8
             then take 4 (ascii ''abcdefgh'') @ ascii ''-'' @ take 2 (drop 4 (ascii ''abcdefgh''))
                    @ ascii ''-'' @ drop 6 (ascii ''abcdefgh'')
             else ascii ''abcdefgh'') = ascii ''abcd-ef-gh''"
    by (simp add: ascii_def)
  have e2: "(if length (ascii ''N/A'') = 8
             then take 4 (ascii ''N/A'') @ ascii ''-'' @ take 2 (drop 4 (ascii ''N/A''))
                    @ ascii ''-'' @ drop 6 (ascii ''N/A'')
             else ascii ''N/A'') = ascii ''N/A''"
    by (simp add: ascii_def)
  from registro_date_by_length [OF u1, of "ascii ''u''" None] e1
  have 1: "\<exists>row. registro (Inr ?i1) (ascii ''u'') None = Inr (to_csv row None)
      \<and> row ! 1 = PStr (ascii ''abcd-ef-gh'')"
    by simp
  from registro_date_by_length [OF u2, of "ascii ''u''" None] e2
  have 2: "\<exists>row. registro (Inr ?i2) (ascii ''u'') None = Inr (to_csv row None)
      \<and> row ! 1 = PStr (ascii ''N/A'')"
    by simp
  from 1 2 show ?thesis by blast
qed

section \<open>Properties of the pipeline\<close>

lemma audit_rows_to_csv:
  "row \<noteq> header_row \<Longrightarrow> audit_rows (to_csv row f) = audit_rows f @ [row]"
  by (cases f) (simp_all add: audit_rows_def to_csv_def)

lemma success_row_status: "success_row i d url ! 6 = PStr (ascii ''Success'')"
  by (simp add: success_row_def)

lemma error_row_status: "error_row e url ! 6 = PStr (ascii ''Error: '' @ message e)"
  by (simp add: error_row_def)

lemma try_body_log:
  assumes "try_body c url st = (r, a, b, st1)"
  shows "(r = None \<longrightarrow>
            (\<exists>i d. log st1 = to_csv (success_row i d url) (log st))
          \<and> exitosos st1 = Suc (exitosos st) \<and> fallidos st1 = fallidos st)
       \<and> (r \<noteq> None \<longrightarrow>
            log st1 = log st \<and> exitosos st1 = exitosos st \<and> fallidos st1 = fallidos st)"
  using assms
  by (auto simp: try_body_def Let_def registro_def
        split: sum.splits option.splits prod.splits) blast

lemma process_item_row:
  "\<exists>row st'. process_item c url st = (None, st')
     \<and> log st' = to_csv row (log st)
     \<and> row \<noteq> header_row \<and> length row = 7 \<and> row ! 5 = PStr url
     \<and> (row ! 6 = PStr (ascii ''Success'')
          \<or> (\<exists>e. row ! 6 = PStr (ascii ''Error: '' @ message e)))
     \<and> exitosos st' + fallidos st' = Suc (exitosos st + fallidos st)"
proof -
  obtain r a b st1 where tb: "try_body c url st = (r, a, b, st1)"
    by (cases "try_body c url st") auto
  note l = try_body_log [OF tb]
  show ?thesis
  proof (cases r)
    case None
    with l obtain i d where row: "log st1 = to_csv (success_row i d url) (log st)"
      and n: "exitosos st1 = Suc (exitosos st)" "fallidos st1 = fallidos st"
      by blast
    let ?st' = "st1\<lparr>files := clean c a b (files st1)\<rparr>"
    from tb None have "process_item c url st = (None, ?st')"
      by (simp add: process_item_def)
    moreover from row have "log ?st' = to_csv (success_row i d url) (log st)"
      by simp
    moreover from n have "exitosos ?st' + fallidos ?st' = Suc (exitosos st + fallidos st)"
      by simp
    ultimately show ?thesis
      using success_row_not_header success_row_shape success_row_status by blast
  next
    case (Some e)
    with l have n: "log st1 = log st" "exitosos st1 = exitosos st" "fallidos st1 = fallidos st"
      by simp_all
    let ?st2 = "st1\<lparr>log := to_csv (error_row e url) (log st1),
        fallidos := fallidos st1 + 1\<rparr>"
    let ?st' = "?st2\<lparr>files := clean c a b (files ?st2)\<rparr>"
    from tb Some have "process_item c url st = (None, ?st')"
      by (simp add: process_item_def registro_error)
    moreover from n have "log ?st' = to_csv (error_row e url) (log st)"
      by simp
    moreover from n have "exitosos ?st' + fallidos ?st' = Suc (exitosos st + fallidos st)"
      by simp
    ultimately show ?thesis
      using error_row_not_header error_row_shape error_row_status by blast
  qed
qed






lemma run_batch_rows:
  "\<exists>new. audit_rows (log (snd (run_batch w idx videos st))) = audit_rows (log st) @ new
     \<and> map (\<lambda>row. row ! 5) new = map PStr videos"
proof (induction videos arbitrary: idx st)
  case Nil
  then show ?case by simp
next
  case (Cons url videos)
  obtain row st' where p: "process_item (w idx url) url st = (None, st')"
    and r: "log st' = to_csv row (log st)" "row \<noteq> header_row" "row ! 5 = PStr url"
    using process_item_row [of "w idx url" url st] by blast
  from p have rb: "run_batch w idx (url # videos) st = run_batch w (Suc idx) videos st'"
    by simp
  from r have a: "audit_rows (log st') = audit_rows (log st) @ [row]"
    by (simp add: audit_rows_to_csv)
  from Cons.IH [of "Suc idx" st'] obtain new
    where new: "audit_rows (log (snd (run_batch w (Suc idx) videos st')))
        = audit_rows (log st') @ new"
      "map (\<lambda>row. row ! 5) new = map PStr videos"
    by blast
  from rb a new r
  have "audit_rows (log (snd (run_batch w idx (url # videos) st)))
       = audit_rows (log st) @ (row # new)
     \<and> map (\<lambda>row. row ! 5) (row # new) = map PStr (url # videos)"
    by simp
  then show ?case by blast
qed








lemmas pipeline_eval =
  process_item_def try_body_def download_video_def convert_to_wav_def word_def
  registro_def format_upload_date_def get_or_NA_def NA_def clean_def clean_one_def
  example_ok_def example_transcribe_fails_def example_ffmpeg_fails_def example_info_def
  empty_state_def safe_title_def reserved_def ascii_def Let_def insert_Diff_if

text \<open>
  C2. Processing one item appends exactly one audit record to the log, whatever the
  stages did: the log afterwards is the log before with one row written by \<open>to_csv\<close>,
  the row carries the item's URL and its status is \<open>Success\<close> or \<open>Error: \<close> followed by
  a message. Over a batch, the audit records added are one per URL, in the order of the
  URLs.
\<close>

theorem one_audit_record_per_item:
  "(\<exists>row. log (snd (process_item c url st)) = to_csv row (log st)
       \<and> audit_rows (log (snd (process_item c url st))) = audit_rows (log st) @ [row]
       \<and> length row = 7 \<and> row ! 5 = PStr url
       \<and> (row ! 6 = PStr (ascii ''Success'')
            \<or> (\<exists>e. row ! 6 = PStr (ascii ''Error: '' @ message e))))
   \<and> (\<exists>new. audit_rows (log (snd (run_batch w idx videos st))) = audit_rows (log st) @ new
       \<and> map (\<lambda>row. row ! 5) new = map PStr videos)"
proof -
  obtain row st' where p: "process_item c url st = (None, st')"
    and r: "log st' = to_csv row (log st)" "row \<noteq> header_row" "length row = 7"
      "row ! 5 = PStr url"
      "row ! 6 = PStr (ascii ''Success'') \<or> (\<exists>e. row ! 6 = PStr (ascii ''Error: '' @ message e))"
    using process_item_row [of c url st] by blast
  from r have "audit_rows (log st') = audit_rows (log st) @ [row]"
    by (simp add: audit_rows_to_csv)
  with p r have "\<exists>row. log (snd (process_item c url st)) = to_csv row (log st)
       \<and> audit_rows (log (snd (process_item c url st))) = audit_rows (log st) @ [row]
       \<and> length row = 7 \<and> row ! 5 = PStr url
       \<and> (row ! 6 = PStr (ascii ''Success'')
            \<or> (\<exists>e. row ! 6 = PStr (ascii ''Error: '' @ message e)))"
    by auto
  with run_batch_rows [of w idx videos st] show ?thesis by blast
qed

theorem one_audit_record_per_item_witness:
  "log (snd (run_batch example_world 1 [ascii ''u1'', ascii ''u2''] empty_state))
     = Some [header_row,
             success_row example_info (PStr (ascii ''2008-10-10'')) (ascii ''u1''),
             error_row (Exc CollaboratorError (ascii ''boom'')) (ascii ''u2'')]
   \<and> (\<exists>new. audit_rows (log (snd (run_batch example_world 1 [ascii ''u1'', ascii ''u2'']
                 empty_state))) = new
         \<and> map (\<lambda>row. row ! 5) new = [PStr (ascii ''u1''), PStr (ascii ''u2'')])"
proof -
  have 1: "log (snd (run_batch example_world 1 [ascii ''u1'', ascii ''u2''] empty_state))
     = Some [header_row,
             success_row example_info (PStr (ascii ''2008-10-10'')) (ascii ''u1''),
             error_row (Exc CollaboratorError (ascii ''boom'')) (ascii ''u2'')]"
    by (simp add: example_world_def pipeline_eval to_csv_None to_csv_Some)
  have e: "audit_rows (log empty_state) = []"
    by (simp add: audit_rows_def empty_state_def)
  from one_audit_record_per_item [of _ _ empty_state example_world 1 "[ascii ''u1'', ascii ''u2'']"] e
  have 2: "\<exists>new. audit_rows (log (snd (run_batch example_world 1 [ascii ''u1'', ascii ''u2'']
                 empty_state))) = new
         \<and> map (\<lambda>row. row ! 5) new = [PStr (ascii ''u1''), PStr (ascii ''u2'')]"
    by simp
  from 1 2 show ?thesis by blast
qed





text \<open>
  C1 does not hold of the program. When \<open>ffmpeg\<close> fails after the download succeeded,
  \<open>convert_to_wav\<close> raises before \<open>main\<close> has assigned \<open>input_file\<close>, so that
  \<open>clean(None, None)\<close> removes nothing and the raw media file stays on disk. When the
  transcription fails, or nothing fails, both files are removed.
\<close>

theorem raw_file_left_when_ffmpeg_fails:
  "fst (try_body example_ffmpeg_fails (ascii ''u'') empty_state)
     = Some (Exc CalledProcessError (ascii ''ffmpeg''))
   \<and> files (snd (process_item example_ffmpeg_fails (ascii ''u'') empty_state))
     = {ascii ''Title_ A_B_.webm''}
   \<and> files (snd (process_item example_transcribe_fails (ascii ''u'') empty_state)) = {}
   \<and> files (snd (process_item example_ok (ascii ''u'') empty_state)) = {}"
  by (simp add: pipeline_eval)

end
